theory Spec2Isabelle
  imports Main "HOL-Library.Word"
begin

section \<open>The build target wrapper of the test impact framework\<close>

text \<open>
  The development embeds \<^verbatim>\<open>TestImpactBuildTarget.h\<close>: the class template
  \<^verbatim>\<open>BuildTarget<ProductionTarget, TestTarget>\<close>, its comparison operator and its hash.
\<close>

subsection \<open>Pointers and the objects they point to\<close>

text \<open>
  A pointer value is an address of the flat address space; \<^verbatim>\<open>size_t\<close> has 64 bits.
  \<^verbatim>\<open>reinterpret_cast<size_t>\<close> of a pointer reads its address.
\<close>

type_synonym size_t = "64 word"

datatype pointer = Pointer (address: size_t)

definition nullptr :: pointer where
  "nullptr = Pointer 0"

definition reinterpret_cast_size_t :: "pointer \<Rightarrow> size_t" where
  "reinterpret_cast_size_t p = address p"

text \<open>
  The two template parameters. They are two distinct classes: with one class for both, the
  two constructors of the wrapper would have the same signature and the template would not
  compile.
\<close>

datatype TargetClass = TestTargetClass | ProductionTargetClass

text \<open>
  The class \<^verbatim>\<open>Target\<close> and the two classes derived from it are declared outside this
  header. What the header uses of them is the implicit conversion of a
  \<^verbatim>\<open>const TestTarget*\<close> or a \<^verbatim>\<open>const ProductionTarget*\<close> to a
  \<^verbatim>\<open>const Target*\<close>, the pointer to the \<^verbatim>\<open>Target\<close> base subobject. It is a
  parameter of the model: \<open>up T p\<close> is the converted value of a pointer \<open>p\<close> to an object of
  class \<open>T\<close>.
\<close>

type_synonym upcast = "TargetClass \<Rightarrow> pointer \<Rightarrow> pointer"

text \<open>The base subobject at offset zero (single inheritance): the address is kept.\<close>

definition same_address :: upcast where
  "same_address T p = p"

text \<open>
  The externally owned target objects: the store gives, for the address of every live
  object, its content.
\<close>

type_synonym 'v store = "pointer \<Rightarrow> 'v option"

definition live :: "'v store \<Rightarrow> pointer \<Rightarrow> bool" where
  "live s p \<longleftrightarrow> p \<noteq> nullptr \<and> s p \<noteq> None"

definition value_identical :: "'v store \<Rightarrow> pointer \<Rightarrow> pointer \<Rightarrow> bool" where
  "value_identical s p q \<longleftrightarrow>
     (case s p of None \<Rightarrow> False
      | Some x \<Rightarrow> (case s q of None \<Rightarrow> False | Some y \<Rightarrow> x = y))"

text \<open>
  What the language guarantees of the conversion to the base class: the null pointer
  converts to the null pointer, a pointer to a live object converts to a pointer that is not
  null, and two different live objects, of one class or of the two classes, have different
  base subobjects.
\<close>

definition null_to_null :: "upcast \<Rightarrow> bool" where
  "null_to_null up \<longleftrightarrow> (\<forall>T. up T nullptr = nullptr)"

definition live_to_nonnull :: "upcast \<Rightarrow> 'v store \<Rightarrow> bool" where
  "live_to_nonnull up s \<longleftrightarrow> (\<forall>T p. live s p \<longrightarrow> up T p \<noteq> nullptr)"

definition distinct_subobjects :: "upcast \<Rightarrow> 'v store \<Rightarrow> bool" where
  "distinct_subobjects up s \<longleftrightarrow>
     (\<forall>T U p q. live s p \<and> live s q \<and> up T p = up U q \<longrightarrow> p = q)"

subsection \<open>The wrapper\<close>

datatype BuildTargetType = TestTarget | ProductionTarget

text \<open>\<^verbatim>\<open>AZStd::variant<const TestTarget*, const ProductionTarget*>\<close>\<close>

datatype variant = TestTargetPtr pointer | ProductionTargetPtr pointer

record BuildTarget =
  m_target :: variant
  m_type :: BuildTargetType

text \<open>The constructor for test targets and the constructor for production targets.\<close>

definition BuildTarget_TestTarget :: "pointer \<Rightarrow> BuildTarget" where
  "BuildTarget_TestTarget testTarget =
     \<lparr>m_target = TestTargetPtr testTarget, m_type = TestTarget\<rparr>"

definition BuildTarget_ProductionTarget :: "pointer \<Rightarrow> BuildTarget" where
  "BuildTarget_ProductionTarget productionTarget =
     \<lparr>m_target = ProductionTargetPtr productionTarget, m_type = ProductionTarget\<rparr>"

text \<open>
  The class has no other constructor: the instances are the values the two constructors
  build (and their copies).
\<close>

inductive instance_of_BuildTarget :: "BuildTarget \<Rightarrow> bool" where
  from_test: "instance_of_BuildTarget (BuildTarget_TestTarget testTarget)"
| from_production: "instance_of_BuildTarget (BuildTarget_ProductionTarget productionTarget)"

text \<open>
  \<^verbatim>\<open>IsProductionTarget<T>\<close> and \<^verbatim>\<open>IsTestTarget<T>\<close>: whether the type \<open>T\<close>, with its
  reference, pointer and \<^verbatim>\<open>const\<close> removed, is the class \<^verbatim>\<open>ProductionTarget\<close>
  (\<^verbatim>\<open>TestTarget\<close>). The argument here is that class.
\<close>

definition IsProductionTarget :: "TargetClass \<Rightarrow> bool" where
  "IsProductionTarget T \<longleftrightarrow> ProductionTargetClass = T"

definition IsTestTarget :: "TargetClass \<Rightarrow> bool" where
  "IsTestTarget T \<longleftrightarrow> TestTargetClass = T"

subsection \<open>Visiting\<close>

text \<open>
  A member function runs on a frame: the object it is called on and the variables of the
  caller that the visitor has captured by reference. A visitor is a generic callable: it is
  instantiated with the class of the pointer it is given, and it updates the captured
  variables.
\<close>

record 'c frame =
  this :: BuildTarget
  captured :: 'c

type_synonym 'c Visitor = "TargetClass \<Rightarrow> pointer \<Rightarrow> 'c \<Rightarrow> 'c"

text \<open>
  Modelled from the spec: \<^verbatim>\<open>AZStd::visit\<close> is defined in the core library, outside this
  header. It applies the visitor to the actively held reference, instantiated with the
  class of that reference.
\<close>

definition visit :: "'c Visitor \<Rightarrow> variant \<Rightarrow> 'c \<Rightarrow> 'c" where
  "visit visitor v c =
     (case v of
        TestTargetPtr target \<Rightarrow> visitor TestTargetClass target c
      | ProductionTargetPtr target \<Rightarrow> visitor ProductionTargetClass target c)"

definition Visit :: "'c Visitor \<Rightarrow> 'c frame \<Rightarrow> 'c frame" where
  "Visit visitor fr = fr\<lparr>captured := visit visitor (m_target (this fr)) (captured fr)\<rparr>"

subsection \<open>The accessors\<close>

text \<open>
  Each accessor declares one local variable, initialised with the null pointer, visits with
  a visitor that has captured it, and returns it. \<open>f_run\<close> is the frame at the
  \<^verbatim>\<open>return\<close> of \<open>f\<close>.

  In \<^verbatim>\<open>GetTarget\<close> the visitor assigns \<^verbatim>\<open>&(*target)\<close>: the expression names the
  object \<^verbatim>\<open>target\<close> points to and takes its address again, without reading memory;
  its value is \<^verbatim>\<open>target\<close>, converted to \<^verbatim>\<open>const Target*\<close> by the assignment.
\<close>

definition GetTarget_run :: "upcast \<Rightarrow> BuildTarget \<Rightarrow> pointer frame" where
  "GetTarget_run up bt =
     Visit (\<lambda>T target returnTarget. up T target) \<lparr>this = bt, captured = nullptr\<rparr>"

definition GetTarget :: "upcast \<Rightarrow> BuildTarget \<Rightarrow> pointer" where
  "GetTarget up bt = captured (GetTarget_run up bt)"

definition GetTestTarget_run :: "BuildTarget \<Rightarrow> pointer frame" where
  "GetTestTarget_run bt =
     Visit (\<lambda>T target testTarget. if IsTestTarget T then target else testTarget)
       \<lparr>this = bt, captured = nullptr\<rparr>"

definition GetTestTarget :: "BuildTarget \<Rightarrow> pointer" where
  "GetTestTarget bt = captured (GetTestTarget_run bt)"

definition GetProductionTarget_run :: "BuildTarget \<Rightarrow> pointer frame" where
  "GetProductionTarget_run bt =
     Visit (\<lambda>T target productionTarget. if IsProductionTarget T then target else productionTarget)
       \<lparr>this = bt, captured = nullptr\<rparr>"

definition GetProductionTarget :: "BuildTarget \<Rightarrow> pointer" where
  "GetProductionTarget bt = captured (GetProductionTarget_run bt)"

text \<open>\<^verbatim>\<open>GetTargetType\<close> has no local variable and no statement but its \<^verbatim>\<open>return\<close>.\<close>

definition GetTargetType_run :: "BuildTarget \<Rightarrow> unit frame" where
  "GetTargetType_run bt = \<lparr>this = bt, captured = ()\<rparr>"

definition GetTargetType :: "BuildTarget \<Rightarrow> BuildTargetType" where
  "GetTargetType bt = m_type (this (GetTargetType_run bt))"

subsection \<open>Comparison and hash\<close>

definition operator_eq :: "upcast \<Rightarrow> BuildTarget \<Rightarrow> BuildTarget \<Rightarrow> bool" where
  "operator_eq up lhs rhs \<longleftrightarrow> GetTarget up lhs = GetTarget up rhs"

definition hash :: "upcast \<Rightarrow> BuildTarget \<Rightarrow> size_t" where
  "hash up buildTarget = reinterpret_cast_size_t (GetTarget up buildTarget)"

subsection \<open>Notions of the specification\<close>

text \<open>A narrowing accessor returns a present value when its result is not the null pointer.\<close>

definition exactly_one_present :: "BuildTarget \<Rightarrow> bool" where
  "exactly_one_present bt \<longleftrightarrow>
     (GetTestTarget bt \<noteq> nullptr \<and> GetProductionTarget bt = nullptr) \<or>
     (GetTestTarget bt = nullptr \<and> GetProductionTarget bt \<noteq> nullptr)"

text \<open>The active alternative of the variant: the class it holds a pointer to, and the pointer.\<close>

definition active_class :: "variant \<Rightarrow> TargetClass" where
  "active_class v = (case v of TestTargetPtr p \<Rightarrow> TestTargetClass
                             | ProductionTargetPtr p \<Rightarrow> ProductionTargetClass)"

definition active_pointer :: "variant \<Rightarrow> pointer" where
  "active_pointer v = (case v of TestTargetPtr p \<Rightarrow> p | ProductionTargetPtr p \<Rightarrow> p)"

text \<open>
  The visitor of the dispatch scenario: it counts the calls of its test branch and the
  calls of its production branch.
\<close>

record counters =
  test_branch :: nat
  production_branch :: nat

definition counting_visitor :: "counters Visitor" where
  "counting_visitor T target c =
     (if IsTestTarget T then c\<lparr>test_branch := test_branch c + 1\<rparr>
      else c\<lparr>production_branch := production_branch c + 1\<rparr>)"

section \<open>Properties\<close>

subsection \<open>What each accessor computes\<close>

lemma Visit_this: "this (Visit visitor fr) = this fr"
  by (simp add: Visit_def)

lemma Visit_test:
  "captured (Visit visitor \<lparr>this = BuildTarget_TestTarget p, captured = c\<rparr>) =
     visitor TestTargetClass p c"
  by (simp add: Visit_def visit_def BuildTarget_TestTarget_def)

lemma Visit_production:
  "captured (Visit visitor \<lparr>this = BuildTarget_ProductionTarget p, captured = c\<rparr>) =
     visitor ProductionTargetClass p c"
  by (simp add: Visit_def visit_def BuildTarget_ProductionTarget_def)

lemma GetTarget_active:
  "GetTarget up bt = up (active_class (m_target bt)) (active_pointer (m_target bt))"
  by (simp add: GetTarget_def GetTarget_run_def Visit_def visit_def active_class_def
      active_pointer_def split: variant.split)

lemma GetTarget_test: "GetTarget up (BuildTarget_TestTarget p) = up TestTargetClass p"
  by (simp add: GetTarget_def GetTarget_run_def Visit_test)

lemma GetTarget_production:
  "GetTarget up (BuildTarget_ProductionTarget p) = up ProductionTargetClass p"
  by (simp add: GetTarget_def GetTarget_run_def Visit_production)

lemma GetTestTarget_test: "GetTestTarget (BuildTarget_TestTarget p) = p"
  by (simp add: GetTestTarget_def GetTestTarget_run_def Visit_test IsTestTarget_def)

lemma GetTestTarget_production: "GetTestTarget (BuildTarget_ProductionTarget p) = nullptr"
  by (simp add: GetTestTarget_def GetTestTarget_run_def Visit_production IsTestTarget_def)

lemma GetProductionTarget_test: "GetProductionTarget (BuildTarget_TestTarget p) = nullptr"
  by (simp add: GetProductionTarget_def GetProductionTarget_run_def Visit_test
      IsProductionTarget_def)

lemma GetProductionTarget_production:
  "GetProductionTarget (BuildTarget_ProductionTarget p) = p"
  by (simp add: GetProductionTarget_def GetProductionTarget_run_def Visit_production
      IsProductionTarget_def)

lemma GetTargetType_test: "GetTargetType (BuildTarget_TestTarget p) = TestTarget"
  by (simp add: GetTargetType_def GetTargetType_run_def BuildTarget_TestTarget_def)

lemma GetTargetType_production:
  "GetTargetType (BuildTarget_ProductionTarget p) = ProductionTarget"
  by (simp add: GetTargetType_def GetTargetType_run_def BuildTarget_ProductionTarget_def)

lemma live_same_address: "live_to_nonnull same_address s"
  by (simp add: live_to_nonnull_def live_def same_address_def)

lemma distinct_same_address: "distinct_subobjects same_address s"
  by (simp add: distinct_subobjects_def same_address_def)

lemma null_same_address: "null_to_null same_address"
  by (simp add: null_to_null_def same_address_def)

subsection \<open>A wrapper of a test target\<close>

text \<open>
  C3. For every valid test target \<open>t\<close> (its pointer is not null and the object is live), the
  wrapper constructed from \<open>t\<close> has the tag \<open>TestTarget\<close>, its \<open>GetTestTarget\<close> returns
  exactly \<open>t\<close>, its \<open>GetProductionTarget\<close> returns the null pointer, and its \<open>GetTarget\<close>
  returns the common view of \<open>t\<close>, which is not null.
\<close>

theorem test_target_wrapper:
  assumes "live s t" and "live_to_nonnull up s"
  shows "GetTargetType (BuildTarget_TestTarget t) = TestTarget \<and>
         GetTestTarget (BuildTarget_TestTarget t) = t \<and>
         GetProductionTarget (BuildTarget_TestTarget t) = nullptr \<and>
         GetTarget up (BuildTarget_TestTarget t) = up TestTargetClass t \<and>
         GetTarget up (BuildTarget_TestTarget t) \<noteq> nullptr"
proof -
  from assms have "up TestTargetClass t \<noteq> nullptr"
    unfolding live_to_nonnull_def by blast
  then show ?thesis
    by (simp add: GetTargetType_test GetTestTarget_test GetProductionTarget_test GetTarget_test)
qed

theorem test_target_wrapper_witness:
  "live [Pointer 4096 \<mapsto> ''AzCore.Tests''] (Pointer 4096) \<and>
   live_to_nonnull same_address [Pointer 4096 \<mapsto> ''AzCore.Tests''] \<and>
   GetTargetType (BuildTarget_TestTarget (Pointer 4096)) = TestTarget \<and>
   GetTestTarget (BuildTarget_TestTarget (Pointer 4096)) = Pointer 4096 \<and>
   GetProductionTarget (BuildTarget_TestTarget (Pointer 4096)) = nullptr \<and>
   GetTarget same_address (BuildTarget_TestTarget (Pointer 4096)) = Pointer 4096 \<and>
   GetTarget same_address (BuildTarget_TestTarget (Pointer 4096)) \<noteq> nullptr"
proof -
  have l: "live [Pointer 4096 \<mapsto> ''AzCore.Tests''] (Pointer 4096)"
    by (simp add: live_def nullptr_def)
  have n: "live_to_nonnull same_address [Pointer 4096 \<mapsto> ''AzCore.Tests'']"
    by (rule live_same_address)
  from test_target_wrapper [OF l n] l n show ?thesis
    by (simp add: same_address_def nullptr_def)
qed

subsection \<open>A wrapper of a production target\<close>

text \<open>
  C4. For every valid production target \<open>p\<close> (its pointer is not null and the object is
  live), the wrapper constructed from \<open>p\<close> has the tag \<open>ProductionTarget\<close>, its
  \<open>GetProductionTarget\<close> returns exactly \<open>p\<close>, its \<open>GetTestTarget\<close> returns the null
  pointer, and its \<open>GetTarget\<close> returns the common view of \<open>p\<close>, which is not null.
\<close>

theorem production_target_wrapper:
  assumes "live s p" and "live_to_nonnull up s"
  shows "GetTargetType (BuildTarget_ProductionTarget p) = ProductionTarget \<and>
         GetProductionTarget (BuildTarget_ProductionTarget p) = p \<and>
         GetTestTarget (BuildTarget_ProductionTarget p) = nullptr \<and>
         GetTarget up (BuildTarget_ProductionTarget p) = up ProductionTargetClass p \<and>
         GetTarget up (BuildTarget_ProductionTarget p) \<noteq> nullptr"
proof -
  from assms have "up ProductionTargetClass p \<noteq> nullptr"
    unfolding live_to_nonnull_def by blast
  then show ?thesis
    by (simp add: GetTargetType_production GetTestTarget_production
        GetProductionTarget_production GetTarget_production)
qed

theorem production_target_wrapper_witness:
  "live [Pointer 8192 \<mapsto> ''AzCore''] (Pointer 8192) \<and>
   live_to_nonnull same_address [Pointer 8192 \<mapsto> ''AzCore''] \<and>
   GetTargetType (BuildTarget_ProductionTarget (Pointer 8192)) = ProductionTarget \<and>
   GetProductionTarget (BuildTarget_ProductionTarget (Pointer 8192)) = Pointer 8192 \<and>
   GetTestTarget (BuildTarget_ProductionTarget (Pointer 8192)) = nullptr \<and>
   GetTarget same_address (BuildTarget_ProductionTarget (Pointer 8192)) = Pointer 8192 \<and>
   GetTarget same_address (BuildTarget_ProductionTarget (Pointer 8192)) \<noteq> nullptr"
proof -
  have l: "live [Pointer 8192 \<mapsto> ''AzCore''] (Pointer 8192)"
    by (simp add: live_def nullptr_def)
  have n: "live_to_nonnull same_address [Pointer 8192 \<mapsto> ''AzCore'']"
    by (rule live_same_address)
  from production_target_wrapper [OF l n] l n show ?thesis
    by (simp add: same_address_def nullptr_def)
qed

subsection \<open>The narrowing accessors\<close>

lemma exactly_one_test: "exactly_one_present (BuildTarget_TestTarget p) \<longleftrightarrow> p \<noteq> nullptr"
  by (simp add: exactly_one_present_def GetTestTarget_test GetProductionTarget_test)

lemma exactly_one_production:
  "exactly_one_present (BuildTarget_ProductionTarget p) \<longleftrightarrow> p \<noteq> nullptr"
  by (simp add: exactly_one_present_def GetTestTarget_production
      GetProductionTarget_production)

lemma active_pointer_test: "active_pointer (m_target (BuildTarget_TestTarget p)) = p"
  by (simp add: active_pointer_def BuildTarget_TestTarget_def)

lemma active_pointer_production:
  "active_pointer (m_target (BuildTarget_ProductionTarget p)) = p"
  by (simp add: active_pointer_def BuildTarget_ProductionTarget_def)

lemma active_class_test:
  "active_class (m_target (BuildTarget_TestTarget p)) = TestTargetClass"
  by (simp add: active_class_def BuildTarget_TestTarget_def)

lemma active_class_production:
  "active_class (m_target (BuildTarget_ProductionTarget p)) = ProductionTargetClass"
  by (simp add: active_class_def BuildTarget_ProductionTarget_def)

text \<open>
  C5. For every instance, exactly one of \<open>GetTestTarget\<close> and \<open>GetProductionTarget\<close>
  returns a present value, and the other returns the null pointer. An instance is
  constructed from a valid externally owned target: the held reference is never null. (The
  pointer an instance was constructed from is the active pointer of its variant.)
\<close>

theorem exactly_one_present_nonnull:
  assumes "instance_of_BuildTarget bt" and "active_pointer (m_target bt) \<noteq> nullptr"
  shows "exactly_one_present bt"
  using assms
proof (cases rule: instance_of_BuildTarget.cases)
  case (from_test testTarget)
  with assms(2) show ?thesis
    by (simp add: exactly_one_test active_pointer_test)
next
  case (from_production productionTarget)
  with assms(2) show ?thesis
    by (simp add: exactly_one_production active_pointer_production)
qed

theorem exactly_one_present_nonnull_witness:
  "instance_of_BuildTarget (BuildTarget_ProductionTarget (Pointer 8192)) \<and>
   active_pointer (m_target (BuildTarget_ProductionTarget (Pointer 8192))) \<noteq> nullptr \<and>
   exactly_one_present (BuildTarget_ProductionTarget (Pointer 8192))"
proof -
  have i: "instance_of_BuildTarget (BuildTarget_ProductionTarget (Pointer 8192))"
    by (rule from_production)
  have a: "active_pointer (m_target (BuildTarget_ProductionTarget (Pointer 8192))) \<noteq> nullptr"
    by (simp add: active_pointer_production nullptr_def)
  from exactly_one_present_nonnull [OF i a] i a show ?thesis
    by simp
qed

subsection \<open>The common view\<close>

text \<open>
  C6. For every wrapper constructed from a valid externally owned target, \<open>GetTarget\<close>
  returns the common view of the actively held reference; the result is not null; the call
  leaves the wrapper as it was. \<open>GetTarget\<close> is a total function: there is no input on
  which it fails.
\<close>

theorem GetTarget_common_view:
  assumes "instance_of_BuildTarget bt"
    and "live s (active_pointer (m_target bt))"
    and "live_to_nonnull up s"
  shows "GetTarget up bt = up (active_class (m_target bt)) (active_pointer (m_target bt)) \<and>
         GetTarget up bt \<noteq> nullptr \<and>
         this (GetTarget_run up bt) = bt"
proof -
  from assms(2,3)
  have "up (active_class (m_target bt)) (active_pointer (m_target bt)) \<noteq> nullptr"
    unfolding live_to_nonnull_def by blast
  then show ?thesis
    by (simp add: GetTarget_active GetTarget_run_def Visit_this)
qed

theorem GetTarget_common_view_witness:
  "instance_of_BuildTarget (BuildTarget_TestTarget (Pointer 4096)) \<and>
   live [Pointer 4096 \<mapsto> ''AzCore.Tests'']
     (active_pointer (m_target (BuildTarget_TestTarget (Pointer 4096)))) \<and>
   live_to_nonnull same_address [Pointer 4096 \<mapsto> ''AzCore.Tests''] \<and>
   GetTarget same_address (BuildTarget_TestTarget (Pointer 4096)) = Pointer 4096 \<and>
   GetTarget same_address (BuildTarget_TestTarget (Pointer 4096)) \<noteq> nullptr \<and>
   this (GetTarget_run same_address (BuildTarget_TestTarget (Pointer 4096))) =
     BuildTarget_TestTarget (Pointer 4096)"
proof -
  have i: "instance_of_BuildTarget (BuildTarget_TestTarget (Pointer 4096))"
    by (rule from_test)
  have l: "live [Pointer 4096 \<mapsto> ''AzCore.Tests'']
     (active_pointer (m_target (BuildTarget_TestTarget (Pointer 4096))))"
    by (simp add: active_pointer_test live_def nullptr_def)
  have n: "live_to_nonnull same_address [Pointer 4096 \<mapsto> ''AzCore.Tests'']"
    by (rule live_same_address)
  from GetTarget_common_view [OF i l n] i l n show ?thesis
    by (simp add: active_pointer_test active_class_test same_address_def nullptr_def)
qed

subsection \<open>Dispatch\<close>

text \<open>
  C7. \<open>Visit\<close>, with the visitor that counts the calls of its test branch and of its
  production branch, on a wrapper that holds a test target, adds one to the count of the test
  branch and leaves the count of the production branch; on a wrapper that holds a production
  target it is the other way round. With any visitor, the wrapper of a test target runs the
  instantiation for the test class once, on the held pointer, and the wrapper of a production
  target the instantiation for the production class. The dispatch reads the alternative of
  the variant only: the tag of the wrapper has no part in it.
\<close>

theorem Visit_dispatch:
  "captured (Visit counting_visitor \<lparr>this = BuildTarget_TestTarget p, captured = c\<rparr>) =
     c\<lparr>test_branch := test_branch c + 1\<rparr> \<and>
   test_branch (captured (Visit counting_visitor
     \<lparr>this = BuildTarget_TestTarget p, captured = c\<rparr>)) = test_branch c + 1 \<and>
   production_branch (captured (Visit counting_visitor
     \<lparr>this = BuildTarget_TestTarget p, captured = c\<rparr>)) = production_branch c \<and>
   captured (Visit counting_visitor \<lparr>this = BuildTarget_ProductionTarget p, captured = c\<rparr>) =
     c\<lparr>production_branch := production_branch c + 1\<rparr> \<and>
   test_branch (captured (Visit counting_visitor
     \<lparr>this = BuildTarget_ProductionTarget p, captured = c\<rparr>)) = test_branch c \<and>
   production_branch (captured (Visit counting_visitor
     \<lparr>this = BuildTarget_ProductionTarget p, captured = c\<rparr>)) = production_branch c + 1 \<and>
   captured (Visit visitor \<lparr>this = BuildTarget_TestTarget p, captured = e\<rparr>) =
     visitor TestTargetClass p e \<and>
   captured (Visit visitor \<lparr>this = BuildTarget_ProductionTarget p, captured = e\<rparr>) =
     visitor ProductionTargetClass p e \<and>
   captured (Visit visitor \<lparr>this = bt\<lparr>m_type := tag\<rparr>, captured = e\<rparr>) =
     captured (Visit visitor \<lparr>this = bt, captured = e\<rparr>)"
proof -
  have "captured (Visit visitor \<lparr>this = bt\<lparr>m_type := tag\<rparr>, captured = e\<rparr>) =
     captured (Visit visitor \<lparr>this = bt, captured = e\<rparr>)"
    by (simp add: Visit_def)
  then show ?thesis
    by (simp add: Visit_test Visit_production counting_visitor_def IsTestTarget_def)
qed

subsection \<open>The tag and immutability\<close>

text \<open>
  C8. For every instance, the tag \<open>GetTargetType\<close> returns matches the active alternative of
  the variant (the tag is \<open>TestTarget\<close> iff the variant holds a pointer to a test target);
  the variant holds one of the two alternatives, there is no empty state; and every
  accessor (\<open>GetTarget\<close>, \<open>GetTestTarget\<close>, \<open>GetProductionTarget\<close>, \<open>GetTargetType\<close>,
  \<open>Visit\<close> with any visitor) leaves the instance unchanged, so neither the tag nor the kind
  referenced changes after construction.
\<close>

theorem tag_matches_and_immutable:
  assumes "instance_of_BuildTarget bt"
  shows "(GetTargetType bt = TestTarget \<longleftrightarrow> active_class (m_target bt) = TestTargetClass) \<and>
         (GetTargetType bt = ProductionTarget \<longleftrightarrow>
            active_class (m_target bt) = ProductionTargetClass) \<and>
         (\<exists>p. m_target bt = TestTargetPtr p \<or> m_target bt = ProductionTargetPtr p) \<and>
         this (GetTarget_run up bt) = bt \<and>
         this (GetTestTarget_run bt) = bt \<and>
         this (GetProductionTarget_run bt) = bt \<and>
         this (GetTargetType_run bt) = bt \<and>
         this (Visit visitor \<lparr>this = bt, captured = c\<rparr>) = bt"
proof -
  have unchanged: "this (GetTarget_run up bt) = bt \<and>
         this (GetTestTarget_run bt) = bt \<and>
         this (GetProductionTarget_run bt) = bt \<and>
         this (GetTargetType_run bt) = bt \<and>
         this (Visit visitor \<lparr>this = bt, captured = c\<rparr>) = bt"
    by (simp add: GetTarget_run_def GetTestTarget_run_def GetProductionTarget_run_def
        GetTargetType_run_def Visit_this)
  from assms have "(GetTargetType bt = TestTarget \<longleftrightarrow>
            active_class (m_target bt) = TestTargetClass) \<and>
         (GetTargetType bt = ProductionTarget \<longleftrightarrow>
            active_class (m_target bt) = ProductionTargetClass) \<and>
         (\<exists>p. m_target bt = TestTargetPtr p \<or> m_target bt = ProductionTargetPtr p)"
  proof (cases rule: instance_of_BuildTarget.cases)
    case (from_test testTarget)
    then show ?thesis
      by (simp add: GetTargetType_test active_class_test)
        (simp add: BuildTarget_TestTarget_def)
  next
    case (from_production productionTarget)
    then show ?thesis
      by (simp add: GetTargetType_production active_class_production)
        (simp add: BuildTarget_ProductionTarget_def)
  qed
  with unchanged show ?thesis
    by blast
qed

theorem tag_matches_and_immutable_witness:
  "instance_of_BuildTarget (BuildTarget_TestTarget (Pointer 4096)) \<and>
   GetTargetType (BuildTarget_TestTarget (Pointer 4096)) = TestTarget \<and>
   active_class (m_target (BuildTarget_TestTarget (Pointer 4096))) = TestTargetClass \<and>
   this (GetTarget_run same_address (BuildTarget_TestTarget (Pointer 4096))) =
     BuildTarget_TestTarget (Pointer 4096) \<and>
   this (GetTestTarget_run (BuildTarget_TestTarget (Pointer 4096))) =
     BuildTarget_TestTarget (Pointer 4096) \<and>
   this (GetProductionTarget_run (BuildTarget_TestTarget (Pointer 4096))) =
     BuildTarget_TestTarget (Pointer 4096) \<and>
   this (GetTargetType_run (BuildTarget_TestTarget (Pointer 4096))) =
     BuildTarget_TestTarget (Pointer 4096) \<and>
   this (Visit counting_visitor \<lparr>this = BuildTarget_TestTarget (Pointer 4096),
     captured = \<lparr>test_branch = 0, production_branch = 0\<rparr>\<rparr>) =
     BuildTarget_TestTarget (Pointer 4096)"
proof -
  have i: "instance_of_BuildTarget (BuildTarget_TestTarget (Pointer 4096))"
    by (rule from_test)
  from tag_matches_and_immutable [OF i, of same_address counting_visitor
      "\<lparr>test_branch = 0, production_branch = 0\<rparr>"] i
  show ?thesis
    by (simp add: active_class_test)
qed

subsection \<open>Construction from the null pointer\<close>

text \<open>
  C9. Neither constructor checks its argument: the null pointer is accepted. For the
  wrapper of the null pointer, \<open>GetTestTarget\<close> and \<open>GetProductionTarget\<close> both return the
  null pointer, \<open>GetTarget\<close> returns the null pointer (the null pointer converts to the null
  pointer), and \<open>GetTargetType\<close> still reports the kind of the constructor used. So
  "exactly one accessor present" holds of a wrapper iff the argument of its constructor is
  not null, and "\<open>GetTarget\<close> is never null" fails for the null argument.
\<close>

theorem null_construction:
  assumes "null_to_null up"
  shows "instance_of_BuildTarget (BuildTarget_TestTarget nullptr) \<and>
         GetTestTarget (BuildTarget_TestTarget nullptr) = nullptr \<and>
         GetProductionTarget (BuildTarget_TestTarget nullptr) = nullptr \<and>
         GetTarget up (BuildTarget_TestTarget nullptr) = nullptr \<and>
         GetTargetType (BuildTarget_TestTarget nullptr) = TestTarget \<and>
         instance_of_BuildTarget (BuildTarget_ProductionTarget nullptr) \<and>
         GetTestTarget (BuildTarget_ProductionTarget nullptr) = nullptr \<and>
         GetProductionTarget (BuildTarget_ProductionTarget nullptr) = nullptr \<and>
         GetTarget up (BuildTarget_ProductionTarget nullptr) = nullptr \<and>
         GetTargetType (BuildTarget_ProductionTarget nullptr) = ProductionTarget \<and>
         (exactly_one_present (BuildTarget_TestTarget p) \<longleftrightarrow> p \<noteq> nullptr) \<and>
         (exactly_one_present (BuildTarget_ProductionTarget p) \<longleftrightarrow> p \<noteq> nullptr)"
proof -
  from assms have "up TestTargetClass nullptr = nullptr"
    and "up ProductionTargetClass nullptr = nullptr"
    unfolding null_to_null_def by simp_all
  then show ?thesis
    by (simp add: from_test from_production GetTestTarget_test GetTestTarget_production
        GetProductionTarget_test GetProductionTarget_production GetTarget_test
        GetTarget_production GetTargetType_test GetTargetType_production
        exactly_one_test exactly_one_production)
qed

theorem null_construction_witness:
  "null_to_null same_address \<and>
   GetTestTarget (BuildTarget_TestTarget nullptr) = nullptr \<and>
   GetProductionTarget (BuildTarget_TestTarget nullptr) = nullptr \<and>
   GetTarget same_address (BuildTarget_TestTarget nullptr) = nullptr \<and>
   GetTargetType (BuildTarget_TestTarget nullptr) = TestTarget \<and>
   GetTestTarget (BuildTarget_ProductionTarget nullptr) = nullptr \<and>
   GetProductionTarget (BuildTarget_ProductionTarget nullptr) = nullptr \<and>
   GetTarget same_address (BuildTarget_ProductionTarget nullptr) = nullptr \<and>
   GetTargetType (BuildTarget_ProductionTarget nullptr) = ProductionTarget \<and>
   \<not> exactly_one_present (BuildTarget_TestTarget (Pointer 0)) \<and>
   exactly_one_present (BuildTarget_ProductionTarget (Pointer 8192))"
proof -
  have n: "null_to_null same_address"
    by (rule null_same_address)
  from null_construction [OF n, of "Pointer 0"]
  have "\<not> exactly_one_present (BuildTarget_TestTarget (Pointer 0))"
    by (simp add: nullptr_def)
  moreover from null_construction [OF n, of "Pointer 8192"]
  have "exactly_one_present (BuildTarget_ProductionTarget (Pointer 8192))"
    by (simp add: nullptr_def)
  moreover note null_construction [OF n, of "Pointer 0"] n
  ultimately show ?thesis
    by simp
qed

subsection \<open>Equality\<close>

lemma operator_eq_test:
  assumes "distinct_subobjects up s" and "live s p" and "live s q"
  shows "operator_eq up (BuildTarget_TestTarget p) (BuildTarget_TestTarget q) \<longleftrightarrow> p = q"
  using assms unfolding distinct_subobjects_def operator_eq_def GetTarget_test by blast

lemma operator_eq_production:
  assumes "distinct_subobjects up s" and "live s p" and "live s q"
  shows "operator_eq up (BuildTarget_ProductionTarget p) (BuildTarget_ProductionTarget q)
           \<longleftrightarrow> p = q"
  using assms unfolding distinct_subobjects_def operator_eq_def GetTarget_production by blast

lemma operator_eq_active:
  "operator_eq up a b \<longleftrightarrow>
     up (active_class (m_target a)) (active_pointer (m_target a)) =
     up (active_class (m_target b)) (active_pointer (m_target b))"
  by (simp add: operator_eq_def GetTarget_active)

text \<open>
  C1. Two wrappers \<open>a\<close> and \<open>b\<close> are equal iff the common views \<open>GetTarget\<close> returns for them
  are the same pointer: they refer to the identical object. For every two wrappers of valid
  targets, of whichever kinds: if they are equal, they were constructed from the same
  object; if they hold the same alternative of the variant, they are equal; if they are of
  one kind, they are equal iff they were constructed from the same object. Equality never
  holds because the referenced targets have the same content: two wrappers constructed from
  distinct but value-identical instances are unequal.
\<close>

theorem equality_is_identity:
  assumes "distinct_subobjects up s"
    and "instance_of_BuildTarget a" and "live s (active_pointer (m_target a))"
    and "instance_of_BuildTarget b" and "live s (active_pointer (m_target b))"
  shows "(operator_eq up a b \<longleftrightarrow> GetTarget up a = GetTarget up b) \<and>
         (operator_eq up a b \<longrightarrow>
            active_pointer (m_target a) = active_pointer (m_target b)) \<and>
         (m_target a = m_target b \<longrightarrow> operator_eq up a b) \<and>
         (active_class (m_target a) = active_class (m_target b) \<longrightarrow>
            (operator_eq up a b \<longleftrightarrow>
               active_pointer (m_target a) = active_pointer (m_target b))) \<and>
         (active_pointer (m_target a) \<noteq> active_pointer (m_target b) \<and>
          value_identical s (active_pointer (m_target a)) (active_pointer (m_target b)) \<longrightarrow>
            \<not> operator_eq up a b)"
proof -
  have views: "operator_eq up a b \<longleftrightarrow> GetTarget up a = GetTarget up b"
    by (simp add: operator_eq_def)
  have same_object:
    "active_pointer (m_target a) = active_pointer (m_target b)" if "operator_eq up a b"
  proof -
    from that
    have "up (active_class (m_target a)) (active_pointer (m_target a)) =
          up (active_class (m_target b)) (active_pointer (m_target b))"
      by (simp add: operator_eq_active)
    with assms(1,3,5) show ?thesis
      unfolding distinct_subobjects_def by blast
  qed
  have same_alternative: "operator_eq up a b" if "m_target a = m_target b"
    using that by (simp add: operator_eq_active)
  have same_kind: "operator_eq up a b"
    if "active_class (m_target a) = active_class (m_target b)"
      and "active_pointer (m_target a) = active_pointer (m_target b)"
    using that by (simp add: operator_eq_active)
  from views same_object same_alternative same_kind show ?thesis
    by blast
qed

theorem equality_is_identity_witness:
  "distinct_subobjects same_address [Pointer 4096 \<mapsto> ''Lib'', Pointer 8192 \<mapsto> ''Lib''] \<and>
   instance_of_BuildTarget (BuildTarget_TestTarget (Pointer 4096)) \<and>
   live [Pointer 4096 \<mapsto> ''Lib'', Pointer 8192 \<mapsto> ''Lib'']
     (active_pointer (m_target (BuildTarget_TestTarget (Pointer 4096)))) \<and>
   instance_of_BuildTarget (BuildTarget_ProductionTarget (Pointer 8192)) \<and>
   live [Pointer 4096 \<mapsto> ''Lib'', Pointer 8192 \<mapsto> ''Lib'']
     (active_pointer (m_target (BuildTarget_ProductionTarget (Pointer 8192)))) \<and>
   active_pointer (m_target (BuildTarget_TestTarget (Pointer 4096))) \<noteq>
     active_pointer (m_target (BuildTarget_ProductionTarget (Pointer 8192))) \<and>
   value_identical [Pointer 4096 \<mapsto> ''Lib'', Pointer 8192 \<mapsto> ''Lib'']
     (active_pointer (m_target (BuildTarget_TestTarget (Pointer 4096))))
     (active_pointer (m_target (BuildTarget_ProductionTarget (Pointer 8192)))) \<and>
   \<not> operator_eq same_address (BuildTarget_TestTarget (Pointer 4096))
       (BuildTarget_ProductionTarget (Pointer 8192)) \<and>
   operator_eq same_address (BuildTarget_TestTarget (Pointer 4096))
       (BuildTarget_TestTarget (Pointer 4096))"
proof -
  let ?s = "[Pointer 4096 \<mapsto> ''Lib'', Pointer 8192 \<mapsto> ''Lib'']"
  let ?a = "BuildTarget_TestTarget (Pointer 4096)"
  let ?b = "BuildTarget_ProductionTarget (Pointer 8192)"
  have d: "distinct_subobjects same_address ?s"
    by (rule distinct_same_address)
  have ia: "instance_of_BuildTarget ?a" and ib: "instance_of_BuildTarget ?b"
    by (rule from_test, rule from_production)
  have la: "live ?s (active_pointer (m_target ?a))"
    and lb: "live ?s (active_pointer (m_target ?b))"
    by (simp_all add: active_pointer_test active_pointer_production live_def nullptr_def)
  have v: "active_pointer (m_target ?a) \<noteq> active_pointer (m_target ?b) \<and>
      value_identical ?s (active_pointer (m_target ?a)) (active_pointer (m_target ?b))"
    by (simp add: active_pointer_test active_pointer_production value_identical_def)
  from equality_is_identity [OF d ia la ib lb] v
  have ne: "\<not> operator_eq same_address ?a ?b"
    by blast
  from equality_is_identity [OF d ia la ia la]
  have eq: "operator_eq same_address ?a ?a"
    by blast
  from d ia la ib lb v ne eq show ?thesis
    by blast
qed

subsection \<open>Hash\<close>

text \<open>
  C2. If two wrappers are equal, their hashes are equal. The hash is the address of the
  common view \<open>GetTarget\<close> returns, the pointer that equality compares.
\<close>

theorem equal_implies_equal_hash:
  assumes "operator_eq up a b"
  shows "hash up a = hash up b \<and>
         hash up a = address (GetTarget up a) \<and> hash up b = address (GetTarget up b)"
  using assms by (simp add: operator_eq_def hash_def reinterpret_cast_size_t_def)

theorem equal_implies_equal_hash_witness:
  "operator_eq same_address (BuildTarget_TestTarget (Pointer 4096))
     (BuildTarget_TestTarget (Pointer 4096)) \<and>
   hash same_address (BuildTarget_TestTarget (Pointer 4096)) = 4096"
proof -
  have e: "operator_eq same_address (BuildTarget_TestTarget (Pointer 4096))
     (BuildTarget_TestTarget (Pointer 4096))"
    by (simp add: operator_eq_def)
  from equal_implies_equal_hash [OF e] e show ?thesis
    by (simp add: GetTarget_test same_address_def)
qed

text \<open>
  C10. The hash is the address of the common view, so the law holds in both directions:
  the hashes of two wrappers are equal iff the wrappers are equal, and unequal wrappers
  have distinct hashes.
\<close>

theorem equal_hash_iff_equal:
  "(hash up a = hash up b \<longleftrightarrow> operator_eq up a b) \<and>
   (\<not> operator_eq up a b \<longrightarrow> hash up a \<noteq> hash up b)"
proof -
  have "address x = address y \<longleftrightarrow> x = y" for x y :: pointer
    by (cases x, cases y) simp
  then show ?thesis
    by (simp add: operator_eq_def hash_def reinterpret_cast_size_t_def)
qed

theorem equal_hash_iff_equal_witness:
  "\<not> operator_eq same_address (BuildTarget_TestTarget (Pointer 4096))
       (BuildTarget_ProductionTarget (Pointer 8192)) \<and>
   hash same_address (BuildTarget_TestTarget (Pointer 4096)) \<noteq>
   hash same_address (BuildTarget_ProductionTarget (Pointer 8192))"
proof -
  have n: "\<not> operator_eq same_address (BuildTarget_TestTarget (Pointer 4096))
       (BuildTarget_ProductionTarget (Pointer 8192))"
    by (simp add: operator_eq_def GetTarget_test GetTarget_production same_address_def)
  from equal_hash_iff_equal [of same_address "BuildTarget_TestTarget (Pointer 4096)"
      "BuildTarget_ProductionTarget (Pointer 8192)"] n
  show ?thesis
    by blast
qed

end
